theory Spec2Isabelle
  imports Main "HOL-Library.Word"
begin

section \<open>The project bot: a webhook handler that files pull requests on a project board\<close>

text \<open>
  The program is one Go file, \<^verbatim>\<open>main.go\<close>. Its request handler receives a GitHub
  webhook, and for a pull request that was just opened it looks the pull request up among
  the cards of four columns of a project board and either creates a card in the column
  "In review" or moves the existing card there.

  The handler talks to GitHub through the go-github client. The client is not part of
  the program: here it is a record of functions that give the reply to each call. A reply
  may depend on every call made before it, so each function takes the list of the calls
  made so far. The handler returns that list, extended by the calls it made, next to what
  it wrote to the HTTP response. The lines that the handler logs are left out.
\<close>

subsection \<open>Constants\<close>

definition OWNER :: string where "OWNER = ''iamhopaul123''"
definition REPO :: string where "REPO = ''penghaoh-flask-app''"
definition PROJECT_NAME :: string where "PROJECT_NAME = ''Sprint''"
definition BACKLOG :: string where "BACKLOG = ''Backlog''"
definition IN_PROGRESS :: string where "IN_PROGRESS = ''In progress''"
definition IN_REVIEW :: string where "IN_REVIEW = ''In review''"
definition PENDING_RELEASE :: string where "PENDING_RELEASE = ''Pending release''"

definition allColumns :: "string list" where
  "allColumns = [BACKLOG, IN_PROGRESS, IN_REVIEW, PENDING_RELEASE]"

subsection \<open>The data of the go-github library that the handler reads\<close>

text \<open>
  Every field of a go-github struct is a pointer, and the structs are handed around by
  pointer: a pointer is an \<open>option\<close>, \<open>None\<close> for \<^verbatim>\<open>nil\<close>. The handler reads the
  fields through the library's getters only, which return the zero value (\<open>0\<close>, the
  empty string) for a \<^verbatim>\<open>nil\<close> receiver and for a \<^verbatim>\<open>nil\<close> field. Only the fields the
  handler reads are kept.
\<close>

type_synonym int64 = "64 word"

record Project =
  Project_ID :: "int64 option"
  Project_Name :: "string option"

record ProjectColumn =
  ProjectColumn_ID :: "int64 option"
  ProjectColumn_Name :: "string option"

record ProjectCard =
  ProjectCard_ID :: "int64 option"
  ProjectCard_NodeID :: "string option"

record PullRequest =
  PullRequest_ID :: "int64 option"
  PullRequest_NodeID :: "string option"
  PullRequest_Title :: "string option"

record PullRequestEvent =
  Action :: "string option"
  PullRequest :: "PullRequest option"

record ProjectCardOptions =
  ContentID :: int64
  ContentType :: string

record ProjectCardMoveOptions =
  Position :: string
  ColumnID :: int64

record Response =
  StatusCode :: int

definition Project_GetID :: "Project option \<Rightarrow> int64" where
  "Project_GetID p = (case Option.bind p Project_ID of None \<Rightarrow> 0 | Some i \<Rightarrow> i)"

definition Project_GetName :: "Project option \<Rightarrow> string" where
  "Project_GetName p = (case Option.bind p Project_Name of None \<Rightarrow> [] | Some n \<Rightarrow> n)"

definition ProjectColumn_GetID :: "ProjectColumn option \<Rightarrow> int64" where
  "ProjectColumn_GetID c = (case Option.bind c ProjectColumn_ID of None \<Rightarrow> 0 | Some i \<Rightarrow> i)"

definition ProjectColumn_GetName :: "ProjectColumn option \<Rightarrow> string" where
  "ProjectColumn_GetName c =
     (case Option.bind c ProjectColumn_Name of None \<Rightarrow> [] | Some n \<Rightarrow> n)"

definition ProjectCard_GetID :: "ProjectCard option \<Rightarrow> int64" where
  "ProjectCard_GetID c = (case Option.bind c ProjectCard_ID of None \<Rightarrow> 0 | Some i \<Rightarrow> i)"

definition ProjectCard_GetNodeID :: "ProjectCard option \<Rightarrow> string" where
  "ProjectCard_GetNodeID c =
     (case Option.bind c ProjectCard_NodeID of None \<Rightarrow> [] | Some n \<Rightarrow> n)"

definition PullRequest_GetID :: "PullRequest option \<Rightarrow> int64" where
  "PullRequest_GetID p = (case Option.bind p PullRequest_ID of None \<Rightarrow> 0 | Some i \<Rightarrow> i)"

definition PullRequest_GetNodeID :: "PullRequest option \<Rightarrow> string" where
  "PullRequest_GetNodeID p =
     (case Option.bind p PullRequest_NodeID of None \<Rightarrow> [] | Some n \<Rightarrow> n)"

definition GetAction :: "PullRequestEvent \<Rightarrow> string" where
  "GetAction e = (case Action e of None \<Rightarrow> [] | Some a \<Rightarrow> a)"

definition GetPullRequest :: "PullRequestEvent \<Rightarrow> PullRequest option" where
  "GetPullRequest e = PullRequest e"

subsection \<open>The calls to GitHub and their replies\<close>

text \<open>
  A call of the client returns a value, a response and an error. When the error is not
  \<^verbatim>\<open>nil\<close> the handler reads the error's message and, after three of the five calls, the
  status code of the response; the response is a pointer, and the client returns
  \<^verbatim>\<open>nil\<close> for it when the request never got an answer. A failed call is \<open>Inl\<close> of the
  response, if any, and the message; a call that worked is \<open>Inr\<close> of its value.
\<close>

datatype failure = Failure (err_resp: "Response option") (err_Error: string)

datatype call =
    CallListProjects string string
  | CallListProjectColumns int64
  | CallListProjectCards int64
  | CallCreateProjectCard int64 ProjectCardOptions
  | CallMoveProjectCard int64 ProjectCardMoveOptions

text \<open>
  The last field is not GitHub's: it is the order in which Go's \<^verbatim>\<open>range\<close> visits the
  keys of the map in \<^verbatim>\<open>getColumns\<close>, which the language leaves open.
\<close>

record env =
  ListProjects :: "call list \<Rightarrow> string \<Rightarrow> string \<Rightarrow> failure + Project option list"
  ListProjectColumns :: "call list \<Rightarrow> int64 \<Rightarrow> failure + ProjectColumn option list"
  ListProjectCards :: "call list \<Rightarrow> int64 \<Rightarrow> failure + ProjectCard option list"
  CreateProjectCard :: "call list \<Rightarrow> int64 \<Rightarrow> ProjectCardOptions \<Rightarrow> failure + unit"
  MoveProjectCard :: "call list \<Rightarrow> int64 \<Rightarrow> ProjectCardMoveOptions \<Rightarrow> failure + unit"
  range_order :: "string list"

subsection \<open>What the handler leaves in the HTTP response\<close>

text \<open>
  \<open>Responded code body\<close>: the handler wrote a status and a body. \<open>NoWrite\<close>: it returned
  without writing. \<open>Panicked\<close>: it stopped at a run-time panic (an index out of range, a
  \<^verbatim>\<open>nil\<close> pointer dereference) before writing.
\<close>

datatype outcome = Responded int string | NoWrite | Panicked

text \<open>\<^verbatim>\<open>http.Error\<close> writes the status, and the message followed by a newline.\<close>

definition http_Error :: "string \<Rightarrow> int \<Rightarrow> outcome" where
  "http_Error error code = Responded code (error @ [CHR 0x0A])"

definition WriteHeader :: "int \<Rightarrow> outcome" where
  "WriteHeader code = Responded code []"

definition StatusUnauthorized :: int where "StatusUnauthorized = 401"
definition StatusBadRequest :: int where "StatusBadRequest = 400"
definition StatusAccepted :: int where "StatusAccepted = 202"
definition StatusCreated :: int where "StatusCreated = 201"

text \<open>
  \<^verbatim>\<open>http.Error(w, err.Error(), resp.StatusCode)\<close>: reading the status of a \<^verbatim>\<open>nil\<close>
  response panics before anything is written.
\<close>

definition error_with_resp :: "failure \<Rightarrow> outcome" where
  "error_with_resp f =
     (case err_resp f of
        None \<Rightarrow> Panicked
      | Some resp \<Rightarrow> http_Error (err_Error f) (StatusCode resp))"

subsection \<open>getColumns\<close>

type_synonym columns = "string \<rightharpoonup> ProjectColumn option"

text \<open>The map literal: the four names are keys, each with the value \<^verbatim>\<open>nil\<close>.\<close>

definition projColumns_init :: columns where
  "projColumns_init =
     [BACKLOG \<mapsto> None, IN_PROGRESS \<mapsto> None, IN_REVIEW \<mapsto> None, PENDING_RELEASE \<mapsto> None]"

text \<open>The first loop: a listed column whose name is a key of the map is stored under it.\<close>

fun store_columns :: "columns \<Rightarrow> ProjectColumn option list \<Rightarrow> columns" where
  "store_columns projColumns [] = projColumns"
| "store_columns projColumns (column # rest) =
     (let name = ProjectColumn_GetName column
      in store_columns
           (if projColumns name \<noteq> None then projColumns(name \<mapsto> column) else projColumns)
           rest)"

text \<open>The second loop: the first key, in the order of the iteration, whose value is \<^verbatim>\<open>nil\<close>.\<close>

fun first_nil :: "columns \<Rightarrow> string list \<Rightarrow> string option" where
  "first_nil projColumns [] = None"
| "first_nil projColumns (k # ks) =
     (if projColumns k = Some None then Some k else first_nil projColumns ks)"

definition getColumns ::
  "env \<Rightarrow> call list \<Rightarrow> Project option \<Rightarrow> call list \<times> (string + columns)" where
  "getColumns e tr proj =
     (let id = Project_GetID proj;
          tr' = tr @ [CallListProjectColumns id]
      in case ListProjectColumns e tr id of
           Inl err \<Rightarrow> (tr', Inl (err_Error err))
         | Inr cols \<Rightarrow>
             (let projColumns = store_columns projColumns_init cols
              in case first_nil projColumns (range_order e) of
                   Some k \<Rightarrow> (tr', Inl (''column '' @ k @ '' does not exist''))
                 | None \<Rightarrow> (tr', Inr projColumns)))"

subsection \<open>handler\<close>

text \<open>Reading a Go map at a key it does not have gives the zero value, \<^verbatim>\<open>nil\<close>.\<close>

definition at :: "columns \<Rightarrow> string \<Rightarrow> ProjectColumn option" where
  "at cols name = (case cols name of None \<Rightarrow> None | Some column \<Rightarrow> column)"

text \<open>
  The loop over \<^verbatim>\<open>allColumns\<close> that lists the cards of each column and appends them to
  \<^verbatim>\<open>cards\<close>; the first listing that fails ends it.
\<close>

fun list_cards ::
  "env \<Rightarrow> call list \<Rightarrow> columns \<Rightarrow> string list \<Rightarrow> ProjectCard option list \<Rightarrow>
   call list \<times> (failure + ProjectCard option list)" where
  "list_cards e tr cols [] cards = (tr, Inr cards)"
| "list_cards e tr cols (columnName # rest) cards =
     (let id = ProjectColumn_GetID (at cols columnName)
      in case ListProjectCards e tr id of
           Inl err \<Rightarrow> (tr @ [CallListProjectCards id], Inl err)
         | Inr columnCards \<Rightarrow>
             list_cards e (tr @ [CallListProjectCards id]) cols rest (cards @ columnCards))"

text \<open>
  The loop that looks for the card of the pull request: \<^verbatim>\<open>cardID\<close> starts at 0 and takes
  the ID of the first card with the node ID, where the loop breaks.
\<close>

fun find_cardID :: "ProjectCard option list \<Rightarrow> string \<Rightarrow> int64" where
  "find_cardID [] nodeID = 0"
| "find_cardID (c # rest) nodeID =
     (if ProjectCard_GetNodeID c = nodeID then ProjectCard_GetID c
      else find_cardID rest nodeID)"

text \<open>The end of the handler, from the search of the card on.\<close>

definition create_or_move ::
  "env \<Rightarrow> call list \<Rightarrow> columns \<Rightarrow> ProjectCard option list \<Rightarrow> PullRequest option \<Rightarrow>
   call list \<times> outcome" where
  "create_or_move e tr cols cards pr =
     (let cardID = find_cardID cards (PullRequest_GetNodeID pr)
      in if cardID = 0 then
           (let id = ProjectColumn_GetID (at cols IN_REVIEW);
                opts = \<lparr>ContentID = PullRequest_GetID pr, ContentType = ''PullRequest''\<rparr>;
                tr' = tr @ [CallCreateProjectCard id opts]
            in case CreateProjectCard e tr id opts of
                 Inl err \<Rightarrow> (tr', error_with_resp err)
               | Inr _ \<Rightarrow> (tr', WriteHeader StatusCreated))
         else
           (let opts = \<lparr>Position = ''bottom'', ColumnID = ProjectColumn_GetID (at cols IN_REVIEW)\<rparr>;
                tr' = tr @ [CallMoveProjectCard cardID opts]
            in case MoveProjectCard e tr cardID opts of
                 Inl err \<Rightarrow> (tr', error_with_resp err)
               | Inr _ \<Rightarrow> (tr', WriteHeader StatusCreated)))"

text \<open>The handler for a pull request event whose action is "opened".\<close>

definition handle_opened :: "env \<Rightarrow> PullRequest option \<Rightarrow> call list \<times> outcome" where
  "handle_opened e pr =
     (let tr = [CallListProjects OWNER REPO]
      in case ListProjects e [] OWNER REPO of
           Inl err \<Rightarrow> (tr, http_Error (err_Error err) StatusUnauthorized)
         | Inr projects \<Rightarrow>
             (case projects of
                [] \<Rightarrow> (tr, Panicked)
              | proj # _ \<Rightarrow>
                  (let projName = Project_GetName proj
                   in if projName \<noteq> PROJECT_NAME then
                        (tr, http_Error (''project '' @ projName @ '' not found'') StatusUnauthorized)
                      else
                        (case getColumns e tr proj of
                           (tr, Inl err) \<Rightarrow> (tr, http_Error err StatusUnauthorized)
                         | (tr, Inr cols) \<Rightarrow>
                             (case list_cards e tr cols allColumns [] of
                                (tr, Inl err) \<Rightarrow> (tr, error_with_resp err)
                              | (tr, Inr cards) \<Rightarrow> create_or_move e tr cols cards pr)))))"

text \<open>
  The request as the handler sees it after \<^verbatim>\<open>github.ValidatePayload\<close> and
  \<^verbatim>\<open>github.ParseWebHook\<close>, which are the library's: the payload was refused, or it could
  not be parsed, or it is an event; the handler tells a pull request event from the rest.
\<close>

datatype event = PullRequestEv PullRequestEvent | OtherEvent

datatype request = InvalidPayload string | UnparsableWebHook string | Event event

fun handler :: "env \<Rightarrow> request \<Rightarrow> call list \<times> outcome" where
  "handler e (InvalidPayload err) = ([], http_Error err StatusUnauthorized)"
| "handler e (UnparsableWebHook err) = ([], http_Error err StatusBadRequest)"
| "handler e (Event (PullRequestEv ev)) =
     (if GetAction ev \<noteq> ''opened'' then ([], WriteHeader StatusAccepted)
      else handle_opened e (GetPullRequest ev))"
| "handler e (Event OtherEvent) = ([], NoWrite)"

subsection \<open>Reading the list of calls\<close>

fun is_ListProjects :: "call \<Rightarrow> bool" where
  "is_ListProjects (CallListProjects owner repo) = True"
| "is_ListProjects c = False"

fun is_ListProjectColumns :: "call \<Rightarrow> bool" where
  "is_ListProjectColumns (CallListProjectColumns i) = True"
| "is_ListProjectColumns c = False"

fun is_ListProjectCards :: "call \<Rightarrow> bool" where
  "is_ListProjectCards (CallListProjectCards i) = True"
| "is_ListProjectCards c = False"

text \<open>The two calls that change the board.\<close>

fun is_mutation :: "call \<Rightarrow> bool" where
  "is_mutation (CallCreateProjectCard i opts) = True"
| "is_mutation (CallMoveProjectCard i opts) = True"
| "is_mutation c = False"

text \<open>Whether a call, made after the calls of \<open>tr\<close>, returned without an error.\<close>

fun succeeded :: "env \<Rightarrow> call list \<Rightarrow> call \<Rightarrow> bool" where
  "succeeded e tr (CallListProjects owner repo) = (\<not> isl (ListProjects e tr owner repo))"
| "succeeded e tr (CallListProjectColumns i) = (\<not> isl (ListProjectColumns e tr i))"
| "succeeded e tr (CallListProjectCards i) = (\<not> isl (ListProjectCards e tr i))"
| "succeeded e tr (CallCreateProjectCard i opts) = (\<not> isl (CreateProjectCard e tr i opts))"
| "succeeded e tr (CallMoveProjectCard i opts) = (\<not> isl (MoveProjectCard e tr i opts))"

text \<open>
  Whether each of the calls \<open>cs\<close>, made one after the other after the calls of \<open>tr\<close>,
  returned without an error.
\<close>

fun all_succeeded :: "env \<Rightarrow> call list \<Rightarrow> call list \<Rightarrow> bool" where
  "all_succeeded e tr [] = True"
| "all_succeeded e tr (c # cs) = (succeeded e tr c \<and> all_succeeded e (tr @ [c]) cs)"

text \<open>The listing of the cards of the column that the map holds under a name.\<close>

abbreviation (input) cards_call :: "columns \<Rightarrow> string \<Rightarrow> call" where
  "cards_call cols \<equiv> (\<lambda>columnName. CallListProjectCards (ProjectColumn_GetID (at cols columnName)))"

text \<open>
  The calls of a request in which the project and the four columns were found and the
  cards of the four columns were listed.
\<close>

definition reads :: "Project option \<Rightarrow> columns \<Rightarrow> call list" where
  "reads proj cols =
     [CallListProjects OWNER REPO, CallListProjectColumns (Project_GetID proj)] @
     map (cards_call cols) allColumns"

subsection \<open>Boards and events to run the handler on\<close>

definition a_project :: "string \<Rightarrow> Project option" where
  "a_project n = Some \<lparr>Project_ID = Some 7, Project_Name = Some n\<rparr>"

definition a_column :: "int64 \<Rightarrow> string \<Rightarrow> ProjectColumn option" where
  "a_column i n = Some \<lparr>ProjectColumn_ID = Some i, ProjectColumn_Name = Some n\<rparr>"

definition a_card :: "int64 \<Rightarrow> string \<Rightarrow> ProjectCard option" where
  "a_card i n = Some \<lparr>ProjectCard_ID = Some i, ProjectCard_NodeID = Some n\<rparr>"

definition four_columns :: "ProjectColumn option list" where
  "four_columns =
     [a_column 10 ''Backlog'', a_column 20 ''In progress'', a_column 30 ''In review'',
      a_column 40 ''Pending release'']"

text \<open>
  A board with the given projects and columns, with the given cards under the IDs of their
  columns, and with the given replies to the two mutations. The listing of the cards of a
  column fails with \<open>listing_failure\<close>, if any, when it is the call after \<open>n\<close> others.
\<close>

definition listed_cards ::
  "(int64 \<times> ProjectCard option list) list \<Rightarrow> int64 \<Rightarrow> failure + ProjectCard option list" where
  "listed_cards cards_of i = (case map_of cards_of i of None \<Rightarrow> Inr [] | Some cs \<Rightarrow> Inr cs)"

definition a_board ::
  "Project option list \<Rightarrow> ProjectColumn option list \<Rightarrow>
   (int64 \<times> ProjectCard option list) list \<Rightarrow> (nat \<times> failure) option \<Rightarrow>
   failure + unit \<Rightarrow> failure + unit \<Rightarrow> env" where
  "a_board projects cols cards_of listing_failure created moved =
     \<lparr>ListProjects = (\<lambda>tr owner repo. Inr projects),
      ListProjectColumns = (\<lambda>tr i. Inr cols),
      ListProjectCards = (\<lambda>tr i.
        case listing_failure of
          None \<Rightarrow> listed_cards cards_of i
        | Some (n, err) \<Rightarrow> if length tr = n then Inl err else listed_cards cards_of i),
      CreateProjectCard = (\<lambda>tr i opts. created),
      MoveProjectCard = (\<lambda>tr i opts. moved),
      range_order = [''In review'', ''Backlog'', ''Pending release'', ''In progress'']\<rparr>"

text \<open>
  The cards of the boards below: two cards for the pull request \<open>PR_2\<close>, one in the
  backlog and one in review.
\<close>

definition some_cards :: "int64 \<Rightarrow> (int64 \<times> ProjectCard option list) list" where
  "some_cards i =
     [(10, [a_card 554 ''PR_7'', a_card i ''PR_2'']), (30, [a_card 556 ''PR_2''])]"

definition board :: env where
  "board = a_board [a_project ''Sprint''] four_columns (some_cards 555) None (Inr ()) (Inr ())"

definition a_pull_request :: "string \<Rightarrow> PullRequest option" where
  "a_pull_request n =
     Some \<lparr>PullRequest_ID = Some 99, PullRequest_NodeID = Some n,
       PullRequest_Title = Some ''Fix the build''\<rparr>"

definition an_event :: "string \<Rightarrow> string \<Rightarrow> PullRequestEvent" where
  "an_event action n = \<lparr>Action = Some action, PullRequest = a_pull_request n\<rparr>"

text \<open>
  Errors of the client: three that come with a response, and one of a request that got no
  answer.
\<close>

definition bad_gateway :: failure where
  "bad_gateway = Failure (Some \<lparr>StatusCode = 502\<rparr>) ''502 Bad Gateway''"

definition unprocessable :: failure where
  "unprocessable = Failure (Some \<lparr>StatusCode = 422\<rparr>) ''422 Validation Failed''"

definition not_found :: failure where
  "not_found = Failure (Some \<lparr>StatusCode = 404\<rparr>) ''404 Not Found''"

definition no_answer :: failure where
  "no_answer = Failure None ''dial tcp: connection refused''"

section \<open>Properties\<close>

lemmas const_defs =
  OWNER_def REPO_def PROJECT_NAME_def BACKLOG_def IN_PROGRESS_def IN_REVIEW_def
  PENDING_RELEASE_def allColumns_def StatusUnauthorized_def StatusBadRequest_def
  StatusAccepted_def StatusCreated_def

lemmas getter_defs =
  Project_GetID_def Project_GetName_def ProjectColumn_GetID_def ProjectColumn_GetName_def
  ProjectCard_GetID_def ProjectCard_GetNodeID_def PullRequest_GetID_def
  PullRequest_GetNodeID_def GetAction_def GetPullRequest_def

lemmas step_defs =
  handle_opened_def getColumns_def create_or_move_def error_with_resp_def http_Error_def
  WriteHeader_def at_def projColumns_init_def reads_def Let_def

lemmas fixture_defs =
  a_project_def a_column_def a_card_def four_columns_def listed_cards_def a_board_def
  some_cards_def board_def a_pull_request_def an_event_def

lemmas failure_defs = bad_gateway_def unprocessable_def not_found_def no_answer_def

lemmas eval_defs = const_defs getter_defs step_defs fixture_defs

subsection \<open>The steps of the handler\<close>

text \<open>
  After the first loop of \<^verbatim>\<open>getColumns\<close> a key still holds \<^verbatim>\<open>nil\<close> exactly when no listed
  column has that name. The empty string, the name of a column without one, is not a key.
\<close>

lemma store_columns_nil_iff:
  "m [] = None \<Longrightarrow>
   store_columns m cols k = Some None \<longleftrightarrow>
     m k = Some None \<and> k \<notin> ProjectColumn_GetName ` set cols"
proof (induction cols arbitrary: m)
  case Nil
  then show ?case by simp
next
  case (Cons c cols)
  let ?n = "ProjectColumn_GetName c"
  show ?case
  proof (cases "m ?n = None")
    case True
    with Cons show ?thesis by (auto simp: Let_def)
  next
    case False
    then have ne: "?n \<noteq> []" using Cons.prems by auto
    then have c: "c \<noteq> None"
      by (cases c) (auto simp: ProjectColumn_GetName_def)
    have e: "(m(?n \<mapsto> c)) [] = None" using ne Cons.prems by simp
    have step: "store_columns m (c # cols) k = store_columns (m(?n \<mapsto> c)) cols k"
      using False by (simp add: Let_def)
    have ih: "store_columns (m(?n \<mapsto> c)) cols k = Some None \<longleftrightarrow>
        (m(?n \<mapsto> c)) k = Some None \<and> k \<notin> ProjectColumn_GetName ` set cols"
      using e by (rule Cons.IH)
    have upd: "(m(?n \<mapsto> c)) k = Some None \<longleftrightarrow> m k = Some None \<and> k \<noteq> ?n"
      using c by (cases "k = ?n") simp_all
    show ?thesis unfolding step ih upd by auto
  qed
qed

lemma projColumns_init_nil:
  "projColumns_init k = Some None \<longleftrightarrow> k \<in> set allColumns"
  by (simp add: projColumns_init_def allColumns_def)

lemma projColumns_init_empty_name: "projColumns_init [] = None"
  by (simp add: projColumns_init_def const_defs)

lemma first_nil_Some:
  "first_nil m ks = Some k \<Longrightarrow> k \<in> set ks \<and> m k = Some None"
  by (induction ks) (auto split: if_splits)

lemma first_nil_None:
  "first_nil m ks = None \<longleftrightarrow> (\<forall>k \<in> set ks. m k \<noteq> Some None)"
  by (induction ks) auto

text \<open>A key of the map ends with the last listed column of that name, if there is one.\<close>

lemma store_columns_key:
  "m [] = None \<Longrightarrow> m k \<noteq> None \<Longrightarrow>
   store_columns m cols k =
     (if k \<in> ProjectColumn_GetName ` set cols
      then Some (last (filter (\<lambda>c. ProjectColumn_GetName c = k) cols))
      else m k)"
proof (induction cols arbitrary: m)
  case Nil
  then show ?case by simp
next
  case (Cons c cols)
  let ?n = "ProjectColumn_GetName c"
  let ?m = "if m ?n \<noteq> None then m(?n \<mapsto> c) else m"
  have step: "store_columns m (c # cols) k = store_columns ?m cols k"
    by (simp add: Let_def)
  have e: "?m [] = None" using Cons.prems(1) by auto
  have d: "?m k \<noteq> None" using Cons.prems(2) by auto
  have k: "?m k = (if ?n = k then Some c else m k)" using Cons.prems(2) by auto
  show ?case unfolding step Cons.IH [of ?m, OF e d] k
    by (auto simp: filter_empty_conv image_iff)
qed

text \<open>\<^verbatim>\<open>getColumns\<close> makes one call, whatever it returns.\<close>

lemma fst_getColumns:
  "fst (getColumns e tr proj) = tr @ [CallListProjectColumns (Project_GetID proj)]"
  by (simp add: getColumns_def Let_def split: sum.splits option.splits)

lemma getColumns_cases:
  obtains (failed) err where "getColumns e tr proj =
      (tr @ [CallListProjectColumns (Project_GetID proj)], Inl err)"
  | (found) cols where "getColumns e tr proj =
      (tr @ [CallListProjectColumns (Project_GetID proj)], Inr cols)"
  using fst_getColumns [of e tr proj]
  by (cases "getColumns e tr proj"; cases "snd (getColumns e tr proj)") auto

text \<open>
  When \<^verbatim>\<open>getColumns\<close> returns a map, each of the four names gives a listed column of that
  name: the last one listed.
\<close>

lemma getColumns_found:
  assumes "snd (getColumns e tr proj) = Inr cols"
    and "ListProjectColumns e tr (Project_GetID proj) = Inr listed"
    and "name \<in> set allColumns"
    and "set allColumns \<subseteq> set (range_order e)"
  shows "at cols name = last (filter (\<lambda>c. ProjectColumn_GetName c = name) listed) \<and>
     at cols name \<in> set listed \<and> ProjectColumn_GetName (at cols name) = name"
proof -
  let ?m = "store_columns projColumns_init listed"
  have c: "cols = ?m" and f: "first_nil ?m (range_order e) = None"
    using assms(1,2) by (auto simp: getColumns_def Let_def split: option.splits)
  have "name \<in> set (range_order e)" using assms(3,4) by auto
  then have "?m name \<noteq> Some None" using f first_nil_None by blast
  then have listed: "name \<in> ProjectColumn_GetName ` set listed"
    using store_columns_nil_iff [of projColumns_init listed name, OF projColumns_init_empty_name]
      projColumns_init_nil assms(3) by blast
  have "projColumns_init name \<noteq> None" using projColumns_init_nil assms(3) by auto
  then have "?m name = Some (last (filter (\<lambda>c. ProjectColumn_GetName c = name) listed))"
    using store_columns_key [of projColumns_init name listed, OF projColumns_init_empty_name]
      listed by simp
  then have a: "at cols name = last (filter (\<lambda>c. ProjectColumn_GetName c = name) listed)"
    using c by (simp add: at_def)
  have ne: "filter (\<lambda>c. ProjectColumn_GetName c = name) listed \<noteq> []"
    using listed by (auto simp: filter_empty_conv)
  from last_in_set [OF ne] have "at cols name \<in> set (filter (\<lambda>c. ProjectColumn_GetName c = name) listed)"
    unfolding a .
  then show ?thesis using a by auto
qed

text \<open>The loop over the columns: its calls when it ends well, and when it ends on an error.\<close>

lemma list_cards_Inr_trace:
  "snd (list_cards e tr cols names cards) = Inr cs \<Longrightarrow>
   fst (list_cards e tr cols names cards) =
     tr @ map (\<lambda>n. CallListProjectCards (ProjectColumn_GetID (at cols n))) names"
  by (induction names arbitrary: tr cards) (auto simp: Let_def split: sum.splits)

lemma list_cards_Inl_last:
  "snd (list_cards e tr cols names cards) = Inl err \<Longrightarrow>
   \<exists>h i. fst (list_cards e tr cols names cards) = h @ [CallListProjectCards i] \<and>
     ListProjectCards e h i = Inl err"
  by (induction names arbitrary: tr cards) (auto simp: Let_def split: sum.splits)

text \<open>The search: 0 without a match, and otherwise the ID of the first match.\<close>

lemma find_cardID_no_match:
  "\<forall>c \<in> set cards. ProjectCard_GetNodeID c \<noteq> n \<Longrightarrow> find_cardID cards n = 0"
  by (induction cards) auto

lemma find_cardID_first_match:
  "\<forall>c \<in> set before. ProjectCard_GetNodeID c \<noteq> n \<Longrightarrow> ProjectCard_GetNodeID c = n \<Longrightarrow>
   find_cardID (before @ c # after) n = ProjectCard_GetID c"
  by (induction before) auto

text \<open>The handler after the project, the columns and the cards were read.\<close>

lemma handler_after_reads:
  assumes "GetAction ev = ''opened''"
    and "ListProjects e [] OWNER REPO = Inr (proj # others)"
    and "Project_GetName proj = PROJECT_NAME"
    and "snd (getColumns e [CallListProjects OWNER REPO] proj) = Inr cols"
    and "snd (list_cards e
           [CallListProjects OWNER REPO, CallListProjectColumns (Project_GetID proj)]
           cols allColumns []) = Inr cards"
  shows "handler e (Event (PullRequestEv ev)) =
    create_or_move e (reads proj cols) cols cards (GetPullRequest ev)"
proof -
  let ?tr = "[CallListProjects OWNER REPO, CallListProjectColumns (Project_GetID proj)]"
  have g: "getColumns e [CallListProjects OWNER REPO] proj = (?tr, Inr cols)"
    using assms(4) fst_getColumns [of e "[CallListProjects OWNER REPO]" proj]
    by (cases "getColumns e [CallListProjects OWNER REPO] proj") simp
  have l: "list_cards e ?tr cols allColumns [] = (reads proj cols, Inr cards)"
    using assms(5) list_cards_Inr_trace [OF assms(5)]
    by (cases "list_cards e ?tr cols allColumns []") (simp add: reads_def)
  show ?thesis using assms(1,2,3) g l by (simp add: handle_opened_def)
qed

text \<open>The calls of the handler for an opened pull request, in each of its ends.\<close>

lemma all_succeeded_append:
  "all_succeeded e tr (xs @ ys) = (all_succeeded e tr xs \<and> all_succeeded e (tr @ xs) ys)"
  by (induction xs arbitrary: tr) auto

lemma list_cards_shape:
  "\<exists>k \<le> length names.
     fst (list_cards e tr cols names cards) = tr @ map (cards_call cols) (take k names) \<and>
     all_succeeded e tr (butlast (map (cards_call cols) (take k names))) \<and>
     (\<not> isl (snd (list_cards e tr cols names cards)) \<longrightarrow>
        k = length names \<and> all_succeeded e tr (map (cards_call cols) names))"
proof (induction names arbitrary: tr cards)
  case Nil
  then show ?case by simp
next
  case (Cons n ns)
  let ?c = "cards_call cols n"
  show ?case
  proof (cases "ListProjectCards e tr (ProjectColumn_GetID (at cols n))")
    case (Inl err)
    then have "list_cards e tr cols (n # ns) cards = (tr @ [?c], Inl err)"
      by (simp add: Let_def)
    then show ?thesis by (intro exI [of _ 1]) simp
  next
    case (Inr cs)
    then have step: "list_cards e tr cols (n # ns) cards =
        list_cards e (tr @ [?c]) cols ns (cards @ cs)"
      by (simp add: Let_def)
    have ok: "succeeded e tr ?c" using Inr by simp
    from Cons.IH [of "tr @ [?c]" "cards @ cs"] obtain k where k: "k \<le> length ns"
      "fst (list_cards e (tr @ [?c]) cols ns (cards @ cs)) =
         (tr @ [?c]) @ map (cards_call cols) (take k ns)"
      "all_succeeded e (tr @ [?c]) (butlast (map (cards_call cols) (take k ns)))"
      "\<not> isl (snd (list_cards e (tr @ [?c]) cols ns (cards @ cs))) \<longrightarrow>
         k = length ns \<and> all_succeeded e (tr @ [?c]) (map (cards_call cols) ns)"
      by blast
    have b: "all_succeeded e tr (butlast (map (cards_call cols) (take (Suc k) (n # ns))))"
      using ok k(3) by (cases "take k ns") auto
    show ?thesis
      using k(1,2,4) b ok unfolding step by (intro exI [of _ "Suc k"]) simp
  qed
qed

lemma create_or_move_call:
  "\<exists>m. is_mutation m \<and> fst (create_or_move e tr cols cards pr) = tr @ [m]"
  by (simp add: create_or_move_def Let_def split: sum.splits)

lemma filter_cards_calls [simp]:
  "filter is_ListProjectCards (map CallListProjectCards ids) = map CallListProjectCards ids"
  "filter is_ListProjects (map CallListProjectCards ids) = []"
  "filter is_ListProjectColumns (map CallListProjectCards ids) = []"
  "filter is_mutation (map CallListProjectCards ids) = []"
  by (induction ids) auto

lemma filter_columns_calls [simp]:
  "filter is_ListProjectColumns (map CallListProjectColumns pids) = map CallListProjectColumns pids"
  "filter is_ListProjects (map CallListProjectColumns pids) = []"
  "filter is_ListProjectCards (map CallListProjectColumns pids) = []"
  "filter is_mutation (map CallListProjectColumns pids) = []"
  by (induction pids) auto

lemma is_mutation_other:
  "is_mutation m \<Longrightarrow> \<not> is_ListProjects m \<and> \<not> is_ListProjectColumns m \<and> \<not> is_ListProjectCards m"
  by (cases m) auto

lemma handle_opened_calls:
  "\<exists>pids ids muts.
     fst (handle_opened e pr) =
       CallListProjects OWNER REPO # map CallListProjectColumns pids @
       map CallListProjectCards ids @ muts \<and>
     length pids \<le> 1 \<and> length ids \<le> 4 \<and> length muts \<le> 1 \<and>
     (ids \<noteq> [] \<or> muts \<noteq> [] \<longrightarrow> pids \<noteq> []) \<and>
     (muts \<noteq> [] \<longrightarrow> length ids = 4) \<and>
     list_all is_mutation muts \<and>
     all_succeeded e [] (butlast (fst (handle_opened e pr)))"
proof (cases "ListProjects e [] OWNER REPO")
  case (Inl err)
  then have "fst (handle_opened e pr) = [CallListProjects OWNER REPO]"
    by (simp add: handle_opened_def)
  then show ?thesis by (intro exI [of _ "[]"]) simp
next
  case (Inr projects)
  note projects = this
  show ?thesis
  proof (cases projects)
    case Nil
    then have "fst (handle_opened e pr) = [CallListProjects OWNER REPO]"
      using projects by (simp add: handle_opened_def)
    then show ?thesis by (intro exI [of _ "[]"]) simp
  next
    case (Cons proj others)
    show ?thesis
    proof (cases "Project_GetName proj = PROJECT_NAME")
      case False
      then have "fst (handle_opened e pr) = [CallListProjects OWNER REPO]"
        using projects Cons by (simp add: handle_opened_def)
      then show ?thesis by (intro exI [of _ "[]"]) simp
    next
      case True
      note name = this
      let ?tr1 = "[CallListProjects OWNER REPO, CallListProjectColumns (Project_GetID proj)]"
      have lp: "succeeded e [] (CallListProjects OWNER REPO)" using projects by simp
      show ?thesis
      proof (cases rule: getColumns_cases [of e "[CallListProjects OWNER REPO]" proj])
        case (failed err)
        then have "fst (handle_opened e pr) = ?tr1"
          using projects Cons name by (simp add: handle_opened_def)
        then show ?thesis using lp
          by (intro exI [of _ "[Project_GetID proj]"] exI [of _ "[]"]) simp
      next
        case (found cols)
        then have lc: "succeeded e [CallListProjects OWNER REPO]
            (CallListProjectColumns (Project_GetID proj))"
          by (auto simp: getColumns_def Let_def split: sum.splits option.splits)
        from list_cards_shape [of allColumns e ?tr1 cols "[]"] obtain k where k:
          "k \<le> length allColumns"
          "fst (list_cards e ?tr1 cols allColumns []) =
             ?tr1 @ map (cards_call cols) (take k allColumns)"
          "all_succeeded e ?tr1 (butlast (map (cards_call cols) (take k allColumns)))"
          "\<not> isl (snd (list_cards e ?tr1 cols allColumns [])) \<longrightarrow>
             k = length allColumns \<and> all_succeeded e ?tr1 (map (cards_call cols) allColumns)"
          by blast
        let ?ids = "map (\<lambda>n. ProjectColumn_GetID (at cols n)) (take k allColumns)"
        have ids: "map (cards_call cols) (take k allColumns) = map CallListProjectCards ?ids"
          by simp
        have len: "length ?ids \<le> 4" using k(1) by (simp add: allColumns_def)
        have k3: "all_succeeded e ?tr1 (butlast (map CallListProjectCards ?ids))"
          using k(3) unfolding ids .
        show ?thesis
        proof (cases "snd (list_cards e ?tr1 cols allColumns [])")
          case (Inl err)
          then have "fst (handle_opened e pr) = fst (list_cards e ?tr1 cols allColumns [])"
            using projects Cons name found
            by (cases "list_cards e ?tr1 cols allColumns []") (simp add: handle_opened_def)
          then have tr: "fst (handle_opened e pr) = ?tr1 @ map CallListProjectCards ?ids"
            using k(2) ids by simp
          have "all_succeeded e [] (butlast (?tr1 @ map CallListProjectCards ?ids))"
          proof (cases "?ids = []")
            case True
            then show ?thesis using lp by simp
          next
            case False
            then have "butlast (?tr1 @ map CallListProjectCards ?ids) =
                ?tr1 @ butlast (map CallListProjectCards ?ids)"
              by (simp add: butlast_append)
            then show ?thesis using lp lc k3
              by (simp only: all_succeeded_append) simp
          qed
          then show ?thesis using tr len
            by (intro exI [of _ "[Project_GetID proj]"] exI [of _ ?ids] exI [of _ "[]"]) simp
        next
          case (Inr cards)
          then have all: "k = length allColumns"
            "all_succeeded e ?tr1 (map (cards_call cols) allColumns)"
            using k(4) by simp_all
          have "fst (handle_opened e pr) =
              fst (create_or_move e (fst (list_cards e ?tr1 cols allColumns [])) cols cards pr)"
            using projects Cons name found Inr
            by (cases "list_cards e ?tr1 cols allColumns []") (simp add: handle_opened_def)
          then obtain m where m: "is_mutation m"
            "fst (handle_opened e pr) = (?tr1 @ map CallListProjectCards ?ids) @ [m]"
            using create_or_move_call [of e "fst (list_cards e ?tr1 cols allColumns [])"
                cols cards pr] k(2) ids by auto
          have "all_succeeded e ?tr1 (map CallListProjectCards ?ids)"
            using all unfolding ids [symmetric] by simp
          then have "all_succeeded e [] (?tr1 @ map CallListProjectCards ?ids)"
            using lp lc by (simp only: all_succeeded_append) simp
          then have "all_succeeded e [] (butlast (fst (handle_opened e pr)))"
            unfolding m(2) by (simp only: butlast_snoc)
          moreover have "length ?ids = 4" using all(1) by (simp add: allColumns_def)
          ultimately show ?thesis using m
            by (intro exI [of _ "[Project_GetID proj]"] exI [of _ ?ids] exI [of _ "[m]"]) simp
        qed
      qed
    qed
  qed
qed

lemma shape_counts:
  assumes "tr = CallListProjects owner repo # map CallListProjectColumns pids @
      map CallListProjectCards ids @ muts"
    and "length pids \<le> 1" and "length ids \<le> 4" and "length muts \<le> 1"
    and "list_all is_mutation muts"
  shows "length (filter is_mutation tr) \<le> 1 \<and>
     length (filter is_ListProjects tr) \<le> 1 \<and>
     length (filter is_ListProjectColumns tr) \<le> 1 \<and>
     length (filter is_ListProjectCards tr) \<le> 4 \<and>
     filter is_mutation (butlast tr) = []"
proof (cases muts)
  case Nil
  have "filter is_mutation tr = []" using assms(1) Nil by simp
  then have "filter is_mutation (butlast tr) = []"
    by (metis filter_empty_conv in_set_butlastD)
  then show ?thesis using assms(1-3) Nil by simp
next
  case (Cons m ms)
  then have ms: "ms = []" using assms(4) by simp
  have m: "is_mutation m" using assms(5) Cons by simp
  have "tr = (CallListProjects owner repo # map CallListProjectColumns pids @
      map CallListProjectCards ids) @ [m]"
    using assms(1) Cons ms by simp
  then have "butlast tr = CallListProjects owner repo # map CallListProjectColumns pids @
      map CallListProjectCards ids"
    by (simp only: butlast_snoc)
  then have "filter is_mutation (butlast tr) = []" by simp
  then show ?thesis using assms(1-3) Cons ms m is_mutation_other [OF m] by simp
qed

subsection \<open>A pull request without a card\<close>

text \<open>
  C1, as the handler does it. For an "opened" event, when the project and its four columns
  were found and the cards of the four columns were listed, and none of these cards has the
  node ID of the pull request: the handler lists the project, the columns and the cards of
  the four columns and then makes one call that changes the board, the creation of a card
  in the column "In review" (a listed column of that name) with the ID of the pull request
  as content ID and the content type "PullRequest"; when that call succeeds the handler
  answers 201 with an empty body.
\<close>

theorem opened_without_card_creates:
  assumes "GetAction ev = ''opened''"
    and "ListProjects e [] OWNER REPO = Inr (proj # others)"
    and "Project_GetName proj = PROJECT_NAME"
    and "snd (getColumns e [CallListProjects OWNER REPO] proj) = Inr cols"
    and "snd (list_cards e
           [CallListProjects OWNER REPO, CallListProjectColumns (Project_GetID proj)]
           cols allColumns []) = Inr cards"
    and "\<forall>c \<in> set cards.
           ProjectCard_GetNodeID c \<noteq> PullRequest_GetNodeID (GetPullRequest ev)"
    and "create = CallCreateProjectCard (ProjectColumn_GetID (at cols IN_REVIEW))
           \<lparr>ContentID = PullRequest_GetID (GetPullRequest ev), ContentType = ''PullRequest''\<rparr>"
    and "ListProjectColumns e [CallListProjects OWNER REPO] (Project_GetID proj) = Inr listed"
    and "set allColumns \<subseteq> set (range_order e)"
  shows "fst (handler e (Event (PullRequestEv ev))) = reads proj cols @ [create] \<and>
     filter is_mutation (fst (handler e (Event (PullRequestEv ev)))) = [create] \<and>
     at cols IN_REVIEW \<in> set listed \<and>
     ProjectColumn_GetName (at cols IN_REVIEW) = IN_REVIEW \<and>
     (succeeded e (reads proj cols) create \<longrightarrow>
        snd (handler e (Event (PullRequestEv ev))) = Responded 201 [])"
proof -
  have h: "handler e (Event (PullRequestEv ev)) =
      create_or_move e (reads proj cols) cols cards (GetPullRequest ev)"
    using assms(1-5) by (rule handler_after_reads)
  have z: "find_cardID cards (PullRequest_GetNodeID (GetPullRequest ev)) = 0"
    using assms(6) by (rule find_cardID_no_match)
  have tr: "fst (handler e (Event (PullRequestEv ev))) = reads proj cols @ [create]"
    unfolding h assms(7) using z by (simp add: create_or_move_def Let_def split: sum.splits)
  have r: "filter is_mutation (reads proj cols) = []"
    by (simp add: reads_def allColumns_def)
  have out: "succeeded e (reads proj cols) create \<longrightarrow>
        snd (handler e (Event (PullRequestEv ev))) = Responded 201 []"
    unfolding h assms(7) using z
    by (simp add: create_or_move_def Let_def WriteHeader_def StatusCreated_def split: sum.splits)
  have col: "at cols IN_REVIEW \<in> set listed \<and>
      ProjectColumn_GetName (at cols IN_REVIEW) = IN_REVIEW"
  proof -
    have "IN_REVIEW \<in> set allColumns" by (simp add: allColumns_def)
    from getColumns_found [OF assms(4) assms(8) this assms(9)] show ?thesis by blast
  qed
  show ?thesis using tr r out col by (simp add: assms(7))
qed

theorem opened_without_card_creates_witness:
  "fst (handler board (Event (PullRequestEv (an_event ''opened'' ''PR_1'')))) =
     [CallListProjects ''iamhopaul123'' ''penghaoh-flask-app'', CallListProjectColumns 7,
      CallListProjectCards 10, CallListProjectCards 20, CallListProjectCards 30,
      CallListProjectCards 40,
      CallCreateProjectCard 30 \<lparr>ContentID = 99, ContentType = ''PullRequest''\<rparr>] \<and>
   filter is_mutation (fst (handler board (Event (PullRequestEv (an_event ''opened'' ''PR_1''))))) =
     [CallCreateProjectCard 30 \<lparr>ContentID = 99, ContentType = ''PullRequest''\<rparr>] \<and>
   snd (handler board (Event (PullRequestEv (an_event ''opened'' ''PR_1'')))) = Responded 201 []"
proof -
  let ?ev = "an_event ''opened'' ''PR_1''"
  let ?proj = "a_project ''Sprint''"
  let ?cols = "store_columns projColumns_init four_columns"
  let ?cards = "[a_card 554 ''PR_7'', a_card 555 ''PR_2'', a_card 556 ''PR_2'']"
  let ?create = "CallCreateProjectCard 30 \<lparr>ContentID = 99, ContentType = ''PullRequest''\<rparr>"
  have 1: "GetAction ?ev = ''opened''" by (simp add: eval_defs)
  have 2: "ListProjects board [] OWNER REPO = Inr (?proj # [])" by (simp add: eval_defs)
  have 3: "Project_GetName ?proj = PROJECT_NAME" by (simp add: eval_defs)
  have 4: "snd (getColumns board [CallListProjects OWNER REPO] ?proj) = Inr ?cols"
    by (simp add: eval_defs)
  have 5: "snd (list_cards board
           [CallListProjects OWNER REPO, CallListProjectColumns (Project_GetID ?proj)]
           ?cols allColumns []) = Inr ?cards"
    by (simp add: eval_defs)
  have 6: "\<forall>c \<in> set ?cards.
           ProjectCard_GetNodeID c \<noteq> PullRequest_GetNodeID (GetPullRequest ?ev)"
    by (simp add: eval_defs)
  have 7: "?create = CallCreateProjectCard (ProjectColumn_GetID (at ?cols IN_REVIEW))
           \<lparr>ContentID = PullRequest_GetID (GetPullRequest ?ev), ContentType = ''PullRequest''\<rparr>"
    by (simp add: eval_defs)
  have 8: "succeeded board (reads ?proj ?cols) ?create" by (simp add: eval_defs)
  have 9: "reads ?proj ?cols = [CallListProjects ''iamhopaul123'' ''penghaoh-flask-app'', CallListProjectColumns 7,
      CallListProjectCards 10, CallListProjectCards 20, CallListProjectCards 30,
      CallListProjectCards 40]" by (simp add: eval_defs)
  have 10: "ListProjectColumns board [CallListProjects OWNER REPO] (Project_GetID ?proj) =
      Inr four_columns"
    by (simp add: eval_defs)
  have 11: "set allColumns \<subseteq> set (range_order board)" by (simp add: eval_defs)
  from opened_without_card_creates [OF 1 2 3 4 5 6 7 10 11] 8 show ?thesis
    unfolding 9 by simp
qed

text \<open>
  C1 as the specification has it fails when the creation of the card fails: no card has the
  node ID of the pull request and the handler makes its one creation call, but it answers
  with the status of the failed call, here 422, and not 201.
\<close>

theorem opened_without_card_creates_counterexample:
  "GetAction (an_event ''opened'' ''PR_1'') = ''opened'' \<and>
   snd (list_cards
     (a_board [a_project ''Sprint''] four_columns (some_cards 555) None
        (Inl unprocessable) (Inr ()))
     [CallListProjects ''iamhopaul123'' ''penghaoh-flask-app'', CallListProjectColumns 7]
     (store_columns projColumns_init four_columns) allColumns []) =
     Inr [a_card 554 ''PR_7'', a_card 555 ''PR_2'', a_card 556 ''PR_2''] \<and>
   filter (\<lambda>c. ProjectCard_GetNodeID c =
       PullRequest_GetNodeID (GetPullRequest (an_event ''opened'' ''PR_1'')))
     [a_card 554 ''PR_7'', a_card 555 ''PR_2'', a_card 556 ''PR_2''] = [] \<and>
   handler
     (a_board [a_project ''Sprint''] four_columns (some_cards 555) None
        (Inl unprocessable) (Inr ()))
     (Event (PullRequestEv (an_event ''opened'' ''PR_1''))) =
     ([CallListProjects ''iamhopaul123'' ''penghaoh-flask-app'', CallListProjectColumns 7,
       CallListProjectCards 10, CallListProjectCards 20, CallListProjectCards 30,
       CallListProjectCards 40,
       CallCreateProjectCard 30 \<lparr>ContentID = 99, ContentType = ''PullRequest''\<rparr>],
      Responded 422 ''422 Validation Failed\<newline>'')"
  by (simp add: eval_defs failure_defs)

subsection \<open>A pull request with a card\<close>

text \<open>
  C2, as the handler does it. For an "opened" event, when the project and its four columns
  were found and the cards of the four columns were listed, and the first card in the
  order of the listing that has the node ID of the pull request has an ID other than 0:
  the handler makes one call that changes the board, the move of that card to the bottom
  of the column "In review" (a listed column of that name); when that call succeeds the
  handler answers 201 with an empty body.
\<close>

theorem opened_with_card_moves:
  assumes "GetAction ev = ''opened''"
    and "ListProjects e [] OWNER REPO = Inr (proj # others)"
    and "Project_GetName proj = PROJECT_NAME"
    and "snd (getColumns e [CallListProjects OWNER REPO] proj) = Inr cols"
    and "snd (list_cards e
           [CallListProjects OWNER REPO, CallListProjectColumns (Project_GetID proj)]
           cols allColumns []) = Inr (before @ c # after)"
    and "\<forall>b \<in> set before.
           ProjectCard_GetNodeID b \<noteq> PullRequest_GetNodeID (GetPullRequest ev)"
    and "ProjectCard_GetNodeID c = PullRequest_GetNodeID (GetPullRequest ev)"
    and "ProjectCard_GetID c \<noteq> 0"
    and "move = CallMoveProjectCard (ProjectCard_GetID c)
           \<lparr>Position = ''bottom'', ColumnID = ProjectColumn_GetID (at cols IN_REVIEW)\<rparr>"
    and "ListProjectColumns e [CallListProjects OWNER REPO] (Project_GetID proj) = Inr listed"
    and "set allColumns \<subseteq> set (range_order e)"
  shows "fst (handler e (Event (PullRequestEv ev))) = reads proj cols @ [move] \<and>
     filter is_mutation (fst (handler e (Event (PullRequestEv ev)))) = [move] \<and>
     at cols IN_REVIEW \<in> set listed \<and>
     ProjectColumn_GetName (at cols IN_REVIEW) = IN_REVIEW \<and>
     (succeeded e (reads proj cols) move \<longrightarrow>
        snd (handler e (Event (PullRequestEv ev))) = Responded 201 [])"
proof -
  have h: "handler e (Event (PullRequestEv ev)) =
      create_or_move e (reads proj cols) cols (before @ c # after) (GetPullRequest ev)"
    using assms(1-5) by (rule handler_after_reads)
  have z: "find_cardID (before @ c # after) (PullRequest_GetNodeID (GetPullRequest ev)) =
      ProjectCard_GetID c"
    using assms(6,7) by (rule find_cardID_first_match)
  have tr: "fst (handler e (Event (PullRequestEv ev))) = reads proj cols @ [move]"
    unfolding h assms(9) using z assms(8)
    by (simp add: create_or_move_def Let_def split: sum.splits)
  have r: "filter is_mutation (reads proj cols) = []"
    by (simp add: reads_def allColumns_def)
  have out: "succeeded e (reads proj cols) move \<longrightarrow>
        snd (handler e (Event (PullRequestEv ev))) = Responded 201 []"
    unfolding h assms(9) using z assms(8)
    by (simp add: create_or_move_def Let_def WriteHeader_def StatusCreated_def split: sum.splits)
  have col: "at cols IN_REVIEW \<in> set listed \<and>
      ProjectColumn_GetName (at cols IN_REVIEW) = IN_REVIEW"
  proof -
    have "IN_REVIEW \<in> set allColumns" by (simp add: allColumns_def)
    from getColumns_found [OF assms(4) assms(10) this assms(11)] show ?thesis by blast
  qed
  show ?thesis using tr r out col by (simp add: assms(9))
qed

theorem opened_with_card_moves_witness:
  "fst (handler board (Event (PullRequestEv (an_event ''opened'' ''PR_2'')))) =
     [CallListProjects ''iamhopaul123'' ''penghaoh-flask-app'', CallListProjectColumns 7,
      CallListProjectCards 10, CallListProjectCards 20, CallListProjectCards 30,
      CallListProjectCards 40,
      CallMoveProjectCard 555 \<lparr>Position = ''bottom'', ColumnID = 30\<rparr>] \<and>
   filter is_mutation (fst (handler board (Event (PullRequestEv (an_event ''opened'' ''PR_2''))))) =
     [CallMoveProjectCard 555 \<lparr>Position = ''bottom'', ColumnID = 30\<rparr>] \<and>
   snd (handler board (Event (PullRequestEv (an_event ''opened'' ''PR_2'')))) = Responded 201 []"
proof -
  let ?ev = "an_event ''opened'' ''PR_2''"
  let ?proj = "a_project ''Sprint''"
  let ?cols = "store_columns projColumns_init four_columns"
  let ?move = "CallMoveProjectCard 555 \<lparr>Position = ''bottom'', ColumnID = 30\<rparr>"
  have 1: "GetAction ?ev = ''opened''" by (simp add: eval_defs)
  have 2: "ListProjects board [] OWNER REPO = Inr (?proj # [])" by (simp add: eval_defs)
  have 3: "Project_GetName ?proj = PROJECT_NAME" by (simp add: eval_defs)
  have 4: "snd (getColumns board [CallListProjects OWNER REPO] ?proj) = Inr ?cols"
    by (simp add: eval_defs)
  have 5: "snd (list_cards board
           [CallListProjects OWNER REPO, CallListProjectColumns (Project_GetID ?proj)]
           ?cols allColumns []) =
         Inr ([a_card 554 ''PR_7''] @ a_card 555 ''PR_2'' # [a_card 556 ''PR_2''])"
    by (simp add: eval_defs)
  have 6: "\<forall>b \<in> set [a_card 554 ''PR_7''].
           ProjectCard_GetNodeID b \<noteq> PullRequest_GetNodeID (GetPullRequest ?ev)"
    by (simp add: eval_defs)
  have 7: "ProjectCard_GetNodeID (a_card 555 ''PR_2'') =
      PullRequest_GetNodeID (GetPullRequest ?ev)"
    by (simp add: eval_defs)
  have 8: "ProjectCard_GetID (a_card 555 ''PR_2'') \<noteq> 0" by (simp add: eval_defs)
  have 9: "?move = CallMoveProjectCard (ProjectCard_GetID (a_card 555 ''PR_2''))
           \<lparr>Position = ''bottom'', ColumnID = ProjectColumn_GetID (at ?cols IN_REVIEW)\<rparr>"
    by (simp add: eval_defs)
  have 10: "succeeded board (reads ?proj ?cols) ?move" by (simp add: eval_defs)
  have 11: "reads ?proj ?cols =
     [CallListProjects ''iamhopaul123'' ''penghaoh-flask-app'', CallListProjectColumns 7,
      CallListProjectCards 10, CallListProjectCards 20, CallListProjectCards 30,
      CallListProjectCards 40]"
    by (simp add: eval_defs)
  have 12: "ListProjectColumns board [CallListProjects OWNER REPO] (Project_GetID ?proj) =
      Inr four_columns"
    by (simp add: eval_defs)
  have 13: "set allColumns \<subseteq> set (range_order board)" by (simp add: eval_defs)
  from opened_with_card_moves [OF 1 2 3 4 5 6 7 8 9 12 13] 10 show ?thesis
    unfolding 11 by simp
qed

text \<open>
  C2 as the specification has it fails on a card whose ID is 0: the pull request has a
  card in the backlog, and the handler creates a second card and moves nothing.
\<close>

theorem opened_with_card_moves_counterexample:
  "ListProjectCards
     (a_board [a_project ''Sprint''] four_columns [(10, [a_card 0 ''PR_2''])] None
        (Inr ()) (Inr ()))
     [CallListProjects ''iamhopaul123'' ''penghaoh-flask-app'', CallListProjectColumns 7] 10 =
     Inr [a_card 0 ''PR_2''] \<and>
   ProjectCard_GetNodeID (a_card 0 ''PR_2'') =
     PullRequest_GetNodeID (GetPullRequest (an_event ''opened'' ''PR_2'')) \<and>
   handler
     (a_board [a_project ''Sprint''] four_columns [(10, [a_card 0 ''PR_2''])] None
        (Inr ()) (Inr ()))
     (Event (PullRequestEv (an_event ''opened'' ''PR_2''))) =
     ([CallListProjects ''iamhopaul123'' ''penghaoh-flask-app'', CallListProjectColumns 7,
       CallListProjectCards 10, CallListProjectCards 20, CallListProjectCards 30,
       CallListProjectCards 40,
       CallCreateProjectCard 30 \<lparr>ContentID = 99, ContentType = ''PullRequest''\<rparr>],
      Responded 201 [])"
  by (simp add: eval_defs)

subsection \<open>The search for the card\<close>



subsection \<open>Events that are not "opened"\<close>

text \<open>
  C4. For a pull request event whose action is not "opened", the handler makes no call to
  GitHub at all and answers 202 with an empty body.
\<close>

theorem not_opened_accepted:
  "GetAction ev \<noteq> ''opened'' \<Longrightarrow>
   handler e (Event (PullRequestEv ev)) = ([], Responded 202 [])"
  by (simp add: WriteHeader_def StatusAccepted_def)

theorem not_opened_accepted_witness:
  "GetAction (an_event ''closed'' ''PR_2'') \<noteq> ''opened'' \<and>
   handler board (Event (PullRequestEv (an_event ''closed'' ''PR_2''))) = ([], Responded 202 [])"
  using not_opened_accepted [of "an_event ''closed'' ''PR_2''" board]
  by (simp add: GetAction_def an_event_def)

subsection \<open>A column is missing\<close>

text \<open>
  C5. When the listing of the columns lacks one of the four names, \<^verbatim>\<open>getColumns\<close> returns
  the error "column <name> does not exist" for a name that the listing lacks, the handler
  answers 401 with this message, and its only calls are the listing of the projects and
  the listing of the columns. Go visits the keys of a map in an order of its own; each
  of the four names is among them.
\<close>

theorem missing_column:
  assumes "GetAction ev = ''opened''"
    and "ListProjects e [] OWNER REPO = Inr (proj # others)"
    and "Project_GetName proj = PROJECT_NAME"
    and "ListProjectColumns e [CallListProjects OWNER REPO] (Project_GetID proj) = Inr listed"
    and "name \<in> set allColumns"
    and "name \<notin> ProjectColumn_GetName ` set listed"
    and "set allColumns \<subseteq> set (range_order e)"
  shows "\<exists>k. k \<in> set allColumns \<and> k \<notin> ProjectColumn_GetName ` set listed \<and>
      snd (getColumns e [CallListProjects OWNER REPO] proj) =
        Inl (''column '' @ k @ '' does not exist'') \<and>
      handler e (Event (PullRequestEv ev)) =
        ([CallListProjects OWNER REPO, CallListProjectColumns (Project_GetID proj)],
         Responded 401 (''column '' @ k @ '' does not exist'' @ [CHR 0x0A]))"
proof -
  let ?m = "store_columns projColumns_init listed"
  have nil: "\<And>k. ?m k = Some None \<longleftrightarrow> k \<in> set allColumns \<and> k \<notin> ProjectColumn_GetName ` set listed"
    using store_columns_nil_iff [of projColumns_init listed, OF projColumns_init_empty_name]
      projColumns_init_nil by simp
  have "?m name = Some None" using assms(5,6) nil by simp
  moreover have "name \<in> set (range_order e)" using assms(5,7) by auto
  ultimately have "first_nil ?m (range_order e) \<noteq> None"
    using first_nil_None by blast
  then obtain k where k: "first_nil ?m (range_order e) = Some k" by auto
  then have "?m k = Some None" using first_nil_Some by blast
  then have k': "k \<in> set allColumns" "k \<notin> ProjectColumn_GetName ` set listed"
    using nil by auto
  have g: "getColumns e [CallListProjects OWNER REPO] proj =
      ([CallListProjects OWNER REPO, CallListProjectColumns (Project_GetID proj)],
       Inl (''column '' @ k @ '' does not exist''))"
    using assms(4) k by (simp add: getColumns_def Let_def)
  have "handler e (Event (PullRequestEv ev)) =
        ([CallListProjects OWNER REPO, CallListProjectColumns (Project_GetID proj)],
         Responded 401 (''column '' @ k @ '' does not exist'' @ [CHR 0x0A]))"
    using assms(1,2,3) g by (simp add: handle_opened_def http_Error_def StatusUnauthorized_def)
  with k' g show ?thesis by auto
qed

theorem missing_column_witness:
  "handler
     (a_board [a_project ''Sprint''] [a_column 10 ''Backlog'', a_column 30 ''In review''] []
        None (Inr ()) (Inr ()))
     (Event (PullRequestEv (an_event ''opened'' ''PR_1''))) =
   ([CallListProjects ''iamhopaul123'' ''penghaoh-flask-app'', CallListProjectColumns 7],
    Responded 401 ''column Pending release does not exist\<newline>'')"
proof -
  let ?listed = "[a_column 10 ''Backlog'', a_column 30 ''In review'']"
  let ?e = "a_board [a_project ''Sprint''] ?listed [] None (Inr ()) (Inr ())"
  let ?ev = "an_event ''opened'' ''PR_1''"
  let ?proj = "a_project ''Sprint''"
  have 1: "GetAction ?ev = ''opened''" by (simp add: eval_defs)
  have 2: "ListProjects ?e [] OWNER REPO = Inr (?proj # [])" by (simp add: eval_defs)
  have 3: "Project_GetName ?proj = PROJECT_NAME" by (simp add: eval_defs)
  have 4: "ListProjectColumns ?e [CallListProjects OWNER REPO] (Project_GetID ?proj) =
      Inr ?listed"
    by (simp add: eval_defs)
  have 5: "IN_PROGRESS \<in> set allColumns" by (simp add: eval_defs)
  have 6: "IN_PROGRESS \<notin> ProjectColumn_GetName ` set ?listed" by (simp add: eval_defs)
  have 7: "set allColumns \<subseteq> set (range_order ?e)" by (simp add: eval_defs)
  from missing_column [OF 1 2 3 4 5 6 7] obtain k where
    k: "snd (getColumns ?e [CallListProjects OWNER REPO] ?proj) =
        Inl (''column '' @ k @ '' does not exist'')"
    and h: "handler ?e (Event (PullRequestEv ?ev)) =
        ([CallListProjects OWNER REPO, CallListProjectColumns (Project_GetID ?proj)],
         Responded 401 (''column '' @ k @ '' does not exist'' @ [CHR 0x0A]))"
    by blast
  have "snd (getColumns ?e [CallListProjects OWNER REPO] ?proj) =
        Inl (''column '' @ ''Pending release'' @ '' does not exist'')"
    by (simp add: eval_defs)
  with k have "k = ''Pending release''" by simp
  with h show ?thesis by (simp add: eval_defs)
qed

subsection \<open>The project\<close>

text \<open>
  C6. When the first project that GitHub lists is not named as the constant says, the handler
  answers 401 with the message "project <name> not found" (the name being the first
  project's), and the listing of the projects is the only call it made.
\<close>

theorem project_not_found:
  assumes "GetAction ev = ''opened''"
    and "ListProjects e [] OWNER REPO = Inr (proj # others)"
    and "Project_GetName proj \<noteq> PROJECT_NAME"
  shows "handler e (Event (PullRequestEv ev)) =
    ([CallListProjects OWNER REPO],
     Responded 401 (''project '' @ Project_GetName proj @ '' not found'' @ [CHR 0x0A]))"
  using assms by (simp add: handle_opened_def http_Error_def StatusUnauthorized_def)

theorem project_not_found_witness:
  "handler (a_board [a_project ''Roadmap'', a_project ''Sprint''] four_columns [] None
      (Inr ()) (Inr ()))
     (Event (PullRequestEv (an_event ''opened'' ''PR_1''))) =
   ([CallListProjects ''iamhopaul123'' ''penghaoh-flask-app''],
    Responded 401 ''project Roadmap not found\<newline>'')"
  using project_not_found [of "an_event ''opened'' ''PR_1''"
      "a_board [a_project ''Roadmap'', a_project ''Sprint''] four_columns [] None
        (Inr ()) (Inr ())"
      "a_project ''Roadmap''" "[a_project ''Sprint'']"]
  by (simp add: const_defs getter_defs fixture_defs)

subsection \<open>A call that fails\<close>

text \<open>
  When the listing of the cards of a column, the creation of the card or the move of the
  card fails and the client returns a response with the error, the handler answers with the
  status code of that response and with the message of the error, followed by a newline,
  as the body, and the call that failed is its last.
\<close>

lemma failure_with_response_surfaced:
  assumes "GetAction ev = ''opened''"
    and "ListProjects e [] OWNER REPO = Inr (proj # others)"
    and "Project_GetName proj = PROJECT_NAME"
    and "snd (getColumns e [CallListProjects OWNER REPO] proj) = Inr cols"
    and "tr = [CallListProjects OWNER REPO, CallListProjectColumns (Project_GetID proj)]"
    and "err_resp err = Some resp"
    and "answer = Responded (StatusCode resp) (err_Error err @ [CHR 0x0A])"
  shows "(snd (list_cards e tr cols allColumns []) = Inl err \<longrightarrow>
       snd (handler e (Event (PullRequestEv ev))) = answer \<and>
       (\<exists>h i. fst (handler e (Event (PullRequestEv ev))) = h @ [CallListProjectCards i] \<and>
          ListProjectCards e h i = Inl err)) \<and>
     (\<forall>cards create.
        snd (list_cards e tr cols allColumns []) = Inr cards \<and>
        find_cardID cards (PullRequest_GetNodeID (GetPullRequest ev)) = 0 \<and>
        create = CallCreateProjectCard (ProjectColumn_GetID (at cols IN_REVIEW))
           \<lparr>ContentID = PullRequest_GetID (GetPullRequest ev), ContentType = ''PullRequest''\<rparr> \<and>
        CreateProjectCard e (reads proj cols) (ProjectColumn_GetID (at cols IN_REVIEW))
           \<lparr>ContentID = PullRequest_GetID (GetPullRequest ev), ContentType = ''PullRequest''\<rparr> =
          Inl err \<longrightarrow>
        handler e (Event (PullRequestEv ev)) = (reads proj cols @ [create], answer)) \<and>
     (\<forall>cards cardID move.
        snd (list_cards e tr cols allColumns []) = Inr cards \<and>
        find_cardID cards (PullRequest_GetNodeID (GetPullRequest ev)) = cardID \<and>
        cardID \<noteq> 0 \<and>
        move = CallMoveProjectCard cardID
           \<lparr>Position = ''bottom'', ColumnID = ProjectColumn_GetID (at cols IN_REVIEW)\<rparr> \<and>
        MoveProjectCard e (reads proj cols) cardID
           \<lparr>Position = ''bottom'', ColumnID = ProjectColumn_GetID (at cols IN_REVIEW)\<rparr> =
          Inl err \<longrightarrow>
        handler e (Event (PullRequestEv ev)) = (reads proj cols @ [move], answer))"
proof -
  let ?req = "Event (PullRequestEv ev)"
  have g: "getColumns e [CallListProjects OWNER REPO] proj = (tr, Inr cols)"
    using assms(4,5) fst_getColumns [of e "[CallListProjects OWNER REPO]" proj]
    by (cases "getColumns e [CallListProjects OWNER REPO] proj") simp
  have w: "error_with_resp err = answer"
    using assms(6,7) by (simp add: error_with_resp_def http_Error_def)
  have listing: "snd (handler e ?req) = answer \<and>
       (\<exists>h i. fst (handler e ?req) = h @ [CallListProjectCards i] \<and>
          ListProjectCards e h i = Inl err)"
    if l: "snd (list_cards e tr cols allColumns []) = Inl err"
  proof -
    have "handler e ?req = (fst (list_cards e tr cols allColumns []), answer)"
      using assms(1,2,3) g l w
      by (cases "list_cards e tr cols allColumns []") (simp add: handle_opened_def)
    then show ?thesis using list_cards_Inl_last [OF l] by simp
  qed
  have after: "handler e ?req = create_or_move e (reads proj cols) cols cards (GetPullRequest ev)"
    if "snd (list_cards e tr cols allColumns []) = Inr cards" for cards
    using assms(1-4) that unfolding assms(5) by (rule handler_after_reads)
  have creating: "handler e ?req = (reads proj cols @ [create], answer)"
    if "snd (list_cards e tr cols allColumns []) = Inr cards"
      and "find_cardID cards (PullRequest_GetNodeID (GetPullRequest ev)) = 0"
      and "create = CallCreateProjectCard (ProjectColumn_GetID (at cols IN_REVIEW))
           \<lparr>ContentID = PullRequest_GetID (GetPullRequest ev), ContentType = ''PullRequest''\<rparr>"
      and "CreateProjectCard e (reads proj cols) (ProjectColumn_GetID (at cols IN_REVIEW))
           \<lparr>ContentID = PullRequest_GetID (GetPullRequest ev), ContentType = ''PullRequest''\<rparr> =
          Inl err"
    for cards create
    unfolding after [OF that(1)] using that(2,3,4) w by (simp add: create_or_move_def)
  have moving: "handler e ?req = (reads proj cols @ [move], answer)"
    if "snd (list_cards e tr cols allColumns []) = Inr cards"
      and "find_cardID cards (PullRequest_GetNodeID (GetPullRequest ev)) = cardID"
      and "cardID \<noteq> 0"
      and "move = CallMoveProjectCard cardID
           \<lparr>Position = ''bottom'', ColumnID = ProjectColumn_GetID (at cols IN_REVIEW)\<rparr>"
      and "MoveProjectCard e (reads proj cols) cardID
           \<lparr>Position = ''bottom'', ColumnID = ProjectColumn_GetID (at cols IN_REVIEW)\<rparr> =
          Inl err"
    for cards cardID move
    unfolding after [OF that(1)] using that(2,3,4,5) w by (simp add: create_or_move_def)
  show ?thesis using listing creating moving by blast
qed

lemma failure_with_response_surfaced_on_boards:
  "handler
     (a_board [a_project ''Sprint''] four_columns (some_cards 555) (Some (4, bad_gateway))
        (Inr ()) (Inr ()))
     (Event (PullRequestEv (an_event ''opened'' ''PR_2''))) =
     ([CallListProjects ''iamhopaul123'' ''penghaoh-flask-app'', CallListProjectColumns 7,
       CallListProjectCards 10, CallListProjectCards 20, CallListProjectCards 30],
      Responded 502 ''502 Bad Gateway\<newline>'') \<and>
   handler
     (a_board [a_project ''Sprint''] four_columns (some_cards 555) None
        (Inl unprocessable) (Inr ()))
     (Event (PullRequestEv (an_event ''opened'' ''PR_1''))) =
     ([CallListProjects ''iamhopaul123'' ''penghaoh-flask-app'', CallListProjectColumns 7,
       CallListProjectCards 10, CallListProjectCards 20, CallListProjectCards 30,
       CallListProjectCards 40,
       CallCreateProjectCard 30 \<lparr>ContentID = 99, ContentType = ''PullRequest''\<rparr>],
      Responded 422 ''422 Validation Failed\<newline>'') \<and>
   handler
     (a_board [a_project ''Sprint''] four_columns (some_cards 555) None
        (Inr ()) (Inl not_found))
     (Event (PullRequestEv (an_event ''opened'' ''PR_2''))) =
     ([CallListProjects ''iamhopaul123'' ''penghaoh-flask-app'', CallListProjectColumns 7,
       CallListProjectCards 10, CallListProjectCards 20, CallListProjectCards 30,
       CallListProjectCards 40,
       CallMoveProjectCard 555 \<lparr>Position = ''bottom'', ColumnID = 30\<rparr>],
      Responded 404 ''404 Not Found\<newline>'')"
proof -
  let ?proj = "a_project ''Sprint''"
  let ?cols = "store_columns projColumns_init four_columns"
  let ?tr = "[CallListProjects OWNER REPO, CallListProjectColumns (Project_GetID ?proj)]"
  let ?cards = "[a_card 554 ''PR_7'', a_card 555 ''PR_2'', a_card 556 ''PR_2'']"
  let ?reads = "[CallListProjects ''iamhopaul123'' ''penghaoh-flask-app'',
      CallListProjectColumns 7, CallListProjectCards 10, CallListProjectCards 20,
      CallListProjectCards 30, CallListProjectCards 40]"
  have reads: "reads ?proj ?cols = ?reads" by (simp add: eval_defs)
  have 3: "Project_GetName ?proj = PROJECT_NAME" by (simp add: eval_defs)
  have 5: "?tr = ?tr" by simp

  let ?l = "a_board [a_project ''Sprint''] four_columns (some_cards 555) (Some (4, bad_gateway))
        (Inr ()) (Inr ())"
  let ?ev2 = "an_event ''opened'' ''PR_2''"
  have l1: "GetAction ?ev2 = ''opened''" by (simp add: eval_defs)
  have l2: "ListProjects ?l [] OWNER REPO = Inr (?proj # [])" by (simp add: eval_defs)
  have l4: "snd (getColumns ?l [CallListProjects OWNER REPO] ?proj) = Inr ?cols"
    by (simp add: eval_defs)
  have l6: "err_resp bad_gateway = Some \<lparr>StatusCode = 502\<rparr>" by (simp add: failure_defs)
  have l7: "Responded 502 ''502 Bad Gateway\<newline>'' =
      Responded (StatusCode \<lparr>StatusCode = 502\<rparr>) (err_Error bad_gateway @ [CHR 0x0A])"
    by (simp add: failure_defs)
  have l8: "snd (list_cards ?l ?tr ?cols allColumns []) = Inl bad_gateway"
    by (simp add: eval_defs)
  have l9: "fst (handler ?l (Event (PullRequestEv ?ev2))) =
      [CallListProjects ''iamhopaul123'' ''penghaoh-flask-app'', CallListProjectColumns 7,
       CallListProjectCards 10, CallListProjectCards 20, CallListProjectCards 30]"
    by (simp add: eval_defs)
  from failure_with_response_surfaced [OF l1 l2 3 l4 5 l6 l7] l8
  have "snd (handler ?l (Event (PullRequestEv ?ev2))) = Responded 502 ''502 Bad Gateway\<newline>''"
    by blast
  with l9 have listing: "handler ?l (Event (PullRequestEv ?ev2)) =
     ([CallListProjects ''iamhopaul123'' ''penghaoh-flask-app'', CallListProjectColumns 7,
       CallListProjectCards 10, CallListProjectCards 20, CallListProjectCards 30],
      Responded 502 ''502 Bad Gateway\<newline>'')"
    by (metis prod.collapse)

  let ?c = "a_board [a_project ''Sprint''] four_columns (some_cards 555) None
        (Inl unprocessable) (Inr ())"
  let ?ev1 = "an_event ''opened'' ''PR_1''"
  have c1: "GetAction ?ev1 = ''opened''" by (simp add: eval_defs)
  have c2: "ListProjects ?c [] OWNER REPO = Inr (?proj # [])" by (simp add: eval_defs)
  have c4: "snd (getColumns ?c [CallListProjects OWNER REPO] ?proj) = Inr ?cols"
    by (simp add: eval_defs)
  have c6: "err_resp unprocessable = Some \<lparr>StatusCode = 422\<rparr>" by (simp add: failure_defs)
  have c7: "Responded 422 ''422 Validation Failed\<newline>'' =
      Responded (StatusCode \<lparr>StatusCode = 422\<rparr>) (err_Error unprocessable @ [CHR 0x0A])"
    by (simp add: failure_defs)
  have c8: "snd (list_cards ?c ?tr ?cols allColumns []) = Inr ?cards \<and>
      find_cardID ?cards (PullRequest_GetNodeID (GetPullRequest ?ev1)) = 0 \<and>
      CallCreateProjectCard 30 \<lparr>ContentID = 99, ContentType = ''PullRequest''\<rparr> =
        CallCreateProjectCard (ProjectColumn_GetID (at ?cols IN_REVIEW))
          \<lparr>ContentID = PullRequest_GetID (GetPullRequest ?ev1), ContentType = ''PullRequest''\<rparr> \<and>
      CreateProjectCard ?c (reads ?proj ?cols) (ProjectColumn_GetID (at ?cols IN_REVIEW))
          \<lparr>ContentID = PullRequest_GetID (GetPullRequest ?ev1), ContentType = ''PullRequest''\<rparr> =
        Inl unprocessable"
    by (simp add: eval_defs)
  from failure_with_response_surfaced [OF c1 c2 3 c4 5 c6 c7] c8
  have creating: "handler ?c (Event (PullRequestEv ?ev1)) =
      (reads ?proj ?cols @
         [CallCreateProjectCard 30 \<lparr>ContentID = 99, ContentType = ''PullRequest''\<rparr>],
       Responded 422 ''422 Validation Failed\<newline>'')"
    by blast

  let ?m = "a_board [a_project ''Sprint''] four_columns (some_cards 555) None
        (Inr ()) (Inl not_found)"
  have m2: "ListProjects ?m [] OWNER REPO = Inr (?proj # [])" by (simp add: eval_defs)
  have m4: "snd (getColumns ?m [CallListProjects OWNER REPO] ?proj) = Inr ?cols"
    by (simp add: eval_defs)
  have m6: "err_resp not_found = Some \<lparr>StatusCode = 404\<rparr>" by (simp add: failure_defs)
  have m7: "Responded 404 ''404 Not Found\<newline>'' =
      Responded (StatusCode \<lparr>StatusCode = 404\<rparr>) (err_Error not_found @ [CHR 0x0A])"
    by (simp add: failure_defs)
  have m8: "snd (list_cards ?m ?tr ?cols allColumns []) = Inr ?cards \<and>
      find_cardID ?cards (PullRequest_GetNodeID (GetPullRequest ?ev2)) = 555 \<and>
      (555 :: int64) \<noteq> 0 \<and>
      CallMoveProjectCard 555 \<lparr>Position = ''bottom'', ColumnID = 30\<rparr> =
        CallMoveProjectCard 555
          \<lparr>Position = ''bottom'', ColumnID = ProjectColumn_GetID (at ?cols IN_REVIEW)\<rparr> \<and>
      MoveProjectCard ?m (reads ?proj ?cols) 555
          \<lparr>Position = ''bottom'', ColumnID = ProjectColumn_GetID (at ?cols IN_REVIEW)\<rparr> =
        Inl not_found"
    by (simp add: eval_defs)
  from failure_with_response_surfaced [OF l1 m2 3 m4 5 m6 m7] m8
  have moving: "handler ?m (Event (PullRequestEv ?ev2)) =
      (reads ?proj ?cols @ [CallMoveProjectCard 555 \<lparr>Position = ''bottom'', ColumnID = 30\<rparr>],
       Responded 404 ''404 Not Found\<newline>'')"
    by blast
  show ?thesis
    using listing creating moving unfolding reads by (simp only: append.simps)
qed

text \<open>
  C7. When one of the three calls fails and the client returns no response with the error (a
  request that got no answer), the specification has the handler answer with an
  unauthorized or generic status and the message of the error. The handler does not: it
  reads the status of the \<^verbatim>\<open>nil\<close> response, panics at the failed call and writes no
  answer, for the listing of the cards, for the creation and for the move alike. The
  failures of the listing of the projects and of the columns, which do not read the
  response, are answered with 401.
\<close>

theorem failure_without_response_panics:
  "ListProjectCards
     (a_board [a_project ''Sprint''] four_columns (some_cards 555) (Some (2, no_answer))
        (Inr ()) (Inr ()))
     [CallListProjects ''iamhopaul123'' ''penghaoh-flask-app'', CallListProjectColumns 7] 10 =
     Inl (Failure None ''dial tcp: connection refused'') \<and>
   handler
     (a_board [a_project ''Sprint''] four_columns (some_cards 555) (Some (2, no_answer))
        (Inr ()) (Inr ()))
     (Event (PullRequestEv (an_event ''opened'' ''PR_2''))) =
     ([CallListProjects ''iamhopaul123'' ''penghaoh-flask-app'', CallListProjectColumns 7,
       CallListProjectCards 10],
      Panicked) \<and>
   handler
     (a_board [a_project ''Sprint''] four_columns (some_cards 555) None
        (Inl no_answer) (Inr ()))
     (Event (PullRequestEv (an_event ''opened'' ''PR_1''))) =
     ([CallListProjects ''iamhopaul123'' ''penghaoh-flask-app'', CallListProjectColumns 7,
       CallListProjectCards 10, CallListProjectCards 20, CallListProjectCards 30,
       CallListProjectCards 40,
       CallCreateProjectCard 30 \<lparr>ContentID = 99, ContentType = ''PullRequest''\<rparr>],
      Panicked) \<and>
   handler
     (a_board [a_project ''Sprint''] four_columns (some_cards 555) None
        (Inr ()) (Inl no_answer))
     (Event (PullRequestEv (an_event ''opened'' ''PR_2''))) =
     ([CallListProjects ''iamhopaul123'' ''penghaoh-flask-app'', CallListProjectColumns 7,
       CallListProjectCards 10, CallListProjectCards 20, CallListProjectCards 30,
       CallListProjectCards 40,
       CallMoveProjectCard 555 \<lparr>Position = ''bottom'', ColumnID = 30\<rparr>],
      Panicked)"
  by (simp add: eval_defs failure_defs)

subsection \<open>The number and the order of the calls\<close>

text \<open>
  C8. Whatever the request and whatever GitHub replies, the handler makes at most one call
  that changes the board, at most one listing of the projects, one listing of the columns
  and four listings of cards; a call that changes the board is the last call; and every
  call but the last returned without an error, so that no call follows a failed one.
\<close>

theorem calls_bounded_and_in_sequence:
  "length (filter is_mutation (fst (handler e req))) \<le> 1 \<and>
   length (filter is_ListProjects (fst (handler e req))) \<le> 1 \<and>
   length (filter is_ListProjectColumns (fst (handler e req))) \<le> 1 \<and>
   length (filter is_ListProjectCards (fst (handler e req))) \<le> 4 \<and>
   filter is_mutation (butlast (fst (handler e req))) = [] \<and>
   all_succeeded e [] (butlast (fst (handler e req)))"
proof (cases "\<exists>ev. req = Event (PullRequestEv ev) \<and> GetAction ev = ''opened''")
  case False
  then have "fst (handler e req) = []"
    by (cases "(e, req)" rule: handler.cases) auto
  then show ?thesis by simp
next
  case True
  then obtain ev where "req = Event (PullRequestEv ev)" "GetAction ev = ''opened''"
    by blast
  then have eq: "fst (handler e req) = fst (handle_opened e (GetPullRequest ev))"
    by simp
  from handle_opened_calls [of e "GetPullRequest ev"] obtain pids ids muts where s:
    "fst (handle_opened e (GetPullRequest ev)) =
       CallListProjects OWNER REPO # map CallListProjectColumns pids @
       map CallListProjectCards ids @ muts"
    "length pids \<le> 1" "length ids \<le> 4" "length muts \<le> 1" "list_all is_mutation muts"
    "all_succeeded e [] (butlast (fst (handle_opened e (GetPullRequest ev))))"
    by blast
  from shape_counts [OF s(1-5)] s(6) show ?thesis unfolding eq by simp
qed

theorem calls_bounded_and_in_sequence_witness:
  "length (filter is_mutation
     (fst (handler board (Event (PullRequestEv (an_event ''opened'' ''PR_2'')))))) = 1 \<and>
   length (filter is_ListProjects
     (fst (handler board (Event (PullRequestEv (an_event ''opened'' ''PR_2'')))))) = 1 \<and>
   length (filter is_ListProjectColumns
     (fst (handler board (Event (PullRequestEv (an_event ''opened'' ''PR_2'')))))) = 1 \<and>
   length (filter is_ListProjectCards
     (fst (handler board (Event (PullRequestEv (an_event ''opened'' ''PR_2'')))))) = 4 \<and>
   all_succeeded board []
     [CallListProjects ''iamhopaul123'' ''penghaoh-flask-app'', CallListProjectColumns 7,
      CallListProjectCards 10, CallListProjectCards 20, CallListProjectCards 30,
      CallListProjectCards 40]"
proof -
  let ?req = "Event (PullRequestEv (an_event ''opened'' ''PR_2''))"
  have tr: "fst (handler board ?req) =
     [CallListProjects ''iamhopaul123'' ''penghaoh-flask-app'', CallListProjectColumns 7,
      CallListProjectCards 10, CallListProjectCards 20, CallListProjectCards 30,
      CallListProjectCards 40,
      CallMoveProjectCard 555 \<lparr>Position = ''bottom'', ColumnID = 30\<rparr>]"
    by (simp add: eval_defs)
  from calls_bounded_and_in_sequence [of board ?req]
  have "all_succeeded board [] (butlast (fst (handler board ?req)))" by blast
  then show ?thesis unfolding tr by simp
qed

subsection \<open>No project\<close>

text \<open>
  C9. When GitHub lists no project at all, the handler reads the first element of an empty
  slice: it panics after the listing of the projects, and does not reach the answer
  "project not found".
\<close>

theorem no_project_panics:
  assumes "GetAction ev = ''opened''"
    and "ListProjects e [] OWNER REPO = Inr []"
  shows "handler e (Event (PullRequestEv ev)) = ([CallListProjects OWNER REPO], Panicked)"
  using assms by (simp add: handle_opened_def)

theorem no_project_panics_witness:
  "handler (a_board [] four_columns [] None (Inr ()) (Inr ()))
     (Event (PullRequestEv (an_event ''opened'' ''PR_1''))) =
   ([CallListProjects ''iamhopaul123'' ''penghaoh-flask-app''], Panicked)"
  using no_project_panics [of "an_event ''opened'' ''PR_1''"
      "a_board [] four_columns [] None (Inr ()) (Inr ())"]
  by (simp add: const_defs getter_defs fixture_defs)

subsection \<open>A card with the ID 0\<close>

text \<open>
  C10. For an "opened" event, when the first card that has the node ID of the pull request
  has the ID 0, the handler does what it does when no card was listed at all: it creates a
  card in the column "In review" and moves nothing.
\<close>

theorem zero_card_ID_creates:
  assumes "GetAction ev = ''opened''"
    and "ListProjects e [] OWNER REPO = Inr (proj # others)"
    and "Project_GetName proj = PROJECT_NAME"
    and "snd (getColumns e [CallListProjects OWNER REPO] proj) = Inr cols"
    and "snd (list_cards e
           [CallListProjects OWNER REPO, CallListProjectColumns (Project_GetID proj)]
           cols allColumns []) = Inr (before @ c # after)"
    and "\<forall>b \<in> set before.
           ProjectCard_GetNodeID b \<noteq> PullRequest_GetNodeID (GetPullRequest ev)"
    and "ProjectCard_GetNodeID c = PullRequest_GetNodeID (GetPullRequest ev)"
    and "ProjectCard_GetID c = 0"
  shows "handler e (Event (PullRequestEv ev)) =
       create_or_move e (reads proj cols) cols [] (GetPullRequest ev) \<and>
     fst (handler e (Event (PullRequestEv ev))) =
       reads proj cols @
       [CallCreateProjectCard (ProjectColumn_GetID (at cols IN_REVIEW))
          \<lparr>ContentID = PullRequest_GetID (GetPullRequest ev), ContentType = ''PullRequest''\<rparr>]"
proof -
  have h: "handler e (Event (PullRequestEv ev)) =
      create_or_move e (reads proj cols) cols (before @ c # after) (GetPullRequest ev)"
    using assms(1-5) by (rule handler_after_reads)
  have z: "find_cardID (before @ c # after) (PullRequest_GetNodeID (GetPullRequest ev)) = 0"
    using find_cardID_first_match [OF assms(6,7)] assms(8) by simp
  have same: "create_or_move e (reads proj cols) cols (before @ c # after) (GetPullRequest ev) =
      create_or_move e (reads proj cols) cols [] (GetPullRequest ev)"
    using z by (simp add: create_or_move_def)
  have "fst (create_or_move e (reads proj cols) cols [] (GetPullRequest ev)) =
       reads proj cols @
       [CallCreateProjectCard (ProjectColumn_GetID (at cols IN_REVIEW))
          \<lparr>ContentID = PullRequest_GetID (GetPullRequest ev), ContentType = ''PullRequest''\<rparr>]"
    by (simp add: create_or_move_def Let_def split: sum.splits)
  then show ?thesis using h same by simp
qed

theorem zero_card_ID_creates_witness:
  "handler (a_board [a_project ''Sprint''] four_columns (some_cards 0) None (Inr ()) (Inr ()))
     (Event (PullRequestEv (an_event ''opened'' ''PR_2''))) =
   create_or_move
     (a_board [a_project ''Sprint''] four_columns (some_cards 0) None (Inr ()) (Inr ()))
     [CallListProjects ''iamhopaul123'' ''penghaoh-flask-app'', CallListProjectColumns 7,
      CallListProjectCards 10, CallListProjectCards 20, CallListProjectCards 30,
      CallListProjectCards 40]
     (store_columns projColumns_init four_columns) [] (a_pull_request ''PR_2'') \<and>
   fst (handler (a_board [a_project ''Sprint''] four_columns (some_cards 0) None (Inr ()) (Inr ()))
     (Event (PullRequestEv (an_event ''opened'' ''PR_2'')))) =
     [CallListProjects ''iamhopaul123'' ''penghaoh-flask-app'', CallListProjectColumns 7,
      CallListProjectCards 10, CallListProjectCards 20, CallListProjectCards 30,
      CallListProjectCards 40,
      CallCreateProjectCard 30 \<lparr>ContentID = 99, ContentType = ''PullRequest''\<rparr>]"
proof -
  let ?e = "a_board [a_project ''Sprint''] four_columns (some_cards 0) None (Inr ()) (Inr ())"
  let ?ev = "an_event ''opened'' ''PR_2''"
  let ?proj = "a_project ''Sprint''"
  let ?cols = "store_columns projColumns_init four_columns"
  have 1: "GetAction ?ev = ''opened''" by (simp add: eval_defs)
  have 2: "ListProjects ?e [] OWNER REPO = Inr (?proj # [])" by (simp add: eval_defs)
  have 3: "Project_GetName ?proj = PROJECT_NAME" by (simp add: eval_defs)
  have 4: "snd (getColumns ?e [CallListProjects OWNER REPO] ?proj) = Inr ?cols"
    by (simp add: eval_defs)
  have 5: "snd (list_cards ?e
           [CallListProjects OWNER REPO, CallListProjectColumns (Project_GetID ?proj)]
           ?cols allColumns []) =
         Inr ([a_card 554 ''PR_7''] @ a_card 0 ''PR_2'' # [a_card 556 ''PR_2''])"
    by (simp add: eval_defs)
  have 6: "\<forall>b \<in> set [a_card 554 ''PR_7''].
           ProjectCard_GetNodeID b \<noteq> PullRequest_GetNodeID (GetPullRequest ?ev)"
    by (simp add: eval_defs)
  have 7: "ProjectCard_GetNodeID (a_card 0 ''PR_2'') =
      PullRequest_GetNodeID (GetPullRequest ?ev)"
    by (simp add: eval_defs)
  have 8: "ProjectCard_GetID (a_card 0 ''PR_2'') = 0" by (simp add: eval_defs)
  have 9: "reads ?proj ?cols =
     [CallListProjects ''iamhopaul123'' ''penghaoh-flask-app'', CallListProjectColumns 7,
      CallListProjectCards 10, CallListProjectCards 20, CallListProjectCards 30,
      CallListProjectCards 40]"
    by (simp add: eval_defs)
  have 10: "GetPullRequest ?ev = a_pull_request ''PR_2''"
    by (simp add: GetPullRequest_def an_event_def)
  have 11: "ProjectColumn_GetID (at ?cols IN_REVIEW) = 30" by (simp add: eval_defs)
  have 12: "PullRequest_GetID (a_pull_request ''PR_2'') = 99" by (simp add: eval_defs)
  have 13: "[CallListProjects ''iamhopaul123'' ''penghaoh-flask-app'', CallListProjectColumns 7,
      CallListProjectCards 10, CallListProjectCards 20, CallListProjectCards 30,
      CallListProjectCards 40] @
     [CallCreateProjectCard 30 \<lparr>ContentID = 99, ContentType = ''PullRequest''\<rparr>] =
     [CallListProjects ''iamhopaul123'' ''penghaoh-flask-app'', CallListProjectColumns 7,
      CallListProjectCards 10, CallListProjectCards 20, CallListProjectCards 30,
      CallListProjectCards 40,
      CallCreateProjectCard 30 \<lparr>ContentID = 99, ContentType = ''PullRequest''\<rparr>]"
    by simp
  from zero_card_ID_creates [OF 1 2 3 4 5 6 7 8] show ?thesis
    unfolding 9 10 11 12 13 .
qed

end
